theory Spec2Isabelle
  imports Main
begin

section \<open>Python values and exceptions\<close>

text \<open>
  The model follows \<^verbatim>\<open>tools/anjay_codegen.py\<close>. Python strings are \<^typ>\<open>string\<close>;
  every test the code makes on characters is a test on ASCII characters, and a character
  outside ASCII is outside \<^verbatim>\<open>[a-zA-Z0-9]\<close> whether it is read as one code point or as
  several bytes. Python integers are \<^typ>\<open>int\<close>. A function that can raise returns
  a sum type, with \<^term>\<open>Inl\<close> for the exception that leaves it.
\<close>

datatype value_error =
    RepeatedResourceID int
  | InvalidIntLiteral string

datatype py_error =
    IndexError
  | AssertionError string
  | ValueError value_error
  | TypeError
  | KeyError string
  | AttributeError
  | OSError string
  | ParseError

text \<open>\<^verbatim>\<open>d.get(k, default)\<close> and \<^verbatim>\<open>d[k]\<close> on a dictionary literal, \<^verbatim>\<open>s or d\<close> on strings.\<close>

definition dict_get :: "('k \<times> 'v) list \<Rightarrow> 'k \<Rightarrow> 'v \<Rightarrow> 'v" where
  "dict_get d k dflt = (case map_of d k of None \<Rightarrow> dflt | Some v \<Rightarrow> v)"

definition dict_getitem :: "(string \<times> 'v) list \<Rightarrow> string \<Rightarrow> py_error + 'v" where
  "dict_getitem d k = (case map_of d k of None \<Rightarrow> Inl (KeyError k) | Some v \<Rightarrow> Inr v)"

definition str_or :: "string \<Rightarrow> string \<Rightarrow> string" where
  "str_or s d = (if s = [] then d else s)"

text \<open>\<^verbatim>\<open>s.replace('\n', rep)\<close>: every line feed becomes \<open>rep\<close>.\<close>

definition replace_newline :: "string \<Rightarrow> string \<Rightarrow> string" where
  "replace_newline rep s = concat (map (\<lambda>c. if c = CHR 0x0A then rep else [c]) s)"

text \<open>A list comprehension over a function that can raise stops at the first exception.\<close>

fun map_err :: "('a \<Rightarrow> 'e + 'b) \<Rightarrow> 'a list \<Rightarrow> 'e + 'b list" where
  "map_err f [] = Inr []"
| "map_err f (x # xs) =
     (case f x of
        Inl e \<Rightarrow> Inl e
      | Inr y \<Rightarrow> (case map_err f xs of Inl e \<Rightarrow> Inl e | Inr ys \<Rightarrow> Inr (y # ys)))"


section \<open>Identifier sanitizer\<close>

definition C_SINGLE_INST_TEMPLATE_FILENAME :: string where
  "C_SINGLE_INST_TEMPLATE_FILENAME = ''single_instance_template.c.jinja2''"

definition C_MULTIPLE_INSTS_TEMPLATE_FILENAME :: string where
  "C_MULTIPLE_INSTS_TEMPLATE_FILENAME = ''multiple_instances_template.c.jinja2''"

text \<open>The character class \<^verbatim>\<open>a-zA-Z0-9\<close> of \<^verbatim>\<open>NONALPHANUM_REGEX\<close>.\<close>

definition is_alnum :: "char \<Rightarrow> bool" where
  "is_alnum c = (let n = (of_char c :: nat) in
     (97 \<le> n \<and> n \<le> 122) \<or> (65 \<le> n \<and> n \<le> 90) \<or> (48 \<le> n \<and> n \<le> 57))"

text \<open>
  \<^verbatim>\<open>NONALPHANUM_REGEX.sub('_', n)\<close>: the pattern \<^verbatim>\<open>[^a-zA-Z0-9]+\<close> matches each maximal run
  of characters outside the class, left to right, and each run becomes one underscore.
\<close>

function NONALPHANUM_sub :: "string \<Rightarrow> string" where
  "NONALPHANUM_sub [] = []"
| "NONALPHANUM_sub (c # cs) =
     (if is_alnum c then c # NONALPHANUM_sub cs
      else CHR ''_'' # NONALPHANUM_sub (dropWhile (\<lambda>d. \<not> is_alnum d) cs))"
  by pat_completeness auto
termination
  by (relation "measure length") (auto simp: less_Suc_eq_le length_dropWhile_le)

text \<open>\<^verbatim>\<open>s.strip('_')\<close>: underscores are removed from both ends.\<close>

definition strip_underscores :: "string \<Rightarrow> string" where
  "strip_underscores s =
     rev (dropWhile (\<lambda>c. c = CHR ''_'') (rev (dropWhile (\<lambda>c. c = CHR ''_'') s)))"

definition DIGIT_SPELLINGS :: "(char \<times> string) list" where
  "DIGIT_SPELLINGS =
     [(CHR ''0'', ''zero''), (CHR ''1'', ''one''), (CHR ''2'', ''two''),
      (CHR ''3'', ''three''), (CHR ''4'', ''four''), (CHR ''5'', ''five''),
      (CHR ''6'', ''six''), (CHR ''7'', ''seven''), (CHR ''8'', ''eight''),
      (CHR ''9'', ''nine'')]"

text \<open>
  \<^verbatim>\<open>_sanitize_identifier\<close>. \<^verbatim>\<open>identifier[0]\<close> raises IndexError on the empty string;
  \<^verbatim>\<open>identifier[1:]\<close> is the rest.
\<close>

definition sanitize_identifier :: "string \<Rightarrow> py_error + string" where
  "sanitize_identifier n =
     (case strip_underscores (NONALPHANUM_sub n) of
        [] \<Rightarrow> Inl IndexError
      | c # rest \<Rightarrow> Inr (dict_get DIGIT_SPELLINGS c [c] @ rest))"

text \<open>
  What the target language accepts as an identifier: not empty, letters, digits and
  underscores only, and no digit in front.
\<close>

definition valid_identifier :: "string \<Rightarrow> bool" where
  "valid_identifier s =
     (s \<noteq> [] \<and> list_all (\<lambda>c. is_alnum c \<or> c = CHR ''_'') s \<and>
      map_of DIGIT_SPELLINGS (hd s) = None)"

text \<open>
  A string in which the only characters outside the class are single underscores, each
  followed by a character of the class or by the end: the shape the substitution leaves.
\<close>

fun separated :: "string \<Rightarrow> bool" where
  "separated [] = True"
| "separated (c # cs) =
     ((is_alnum c \<or> (c = CHR ''_'' \<and> (cs = [] \<or> is_alnum (hd cs)))) \<and> separated cs)"


section \<open>Resource and object definitions\<close>

text \<open>
  The two named tuples. Fields that both tuples have carry the prefix \<open>res_\<close> or
  \<open>obj_\<close>.
\<close>

record ResourceDef =
  rid :: int
  res_name :: string
  operations :: string
  res_multiple :: bool
  res_mandatory :: bool
  res_type :: string
  range_enumeration :: string
  units :: string
  res_description :: string

record ObjectDef =
  oid :: int
  obj_name :: string
  version :: string
  obj_description :: string
  urn :: string
  obj_multiple :: bool
  obj_mandatory :: bool
  resources :: "ResourceDef list"

text \<open>\<^verbatim>\<open>ResourceDef.kind_enum\<close>. \<^verbatim>\<open>'E' in self.operations\<close> is a test for the character.\<close>

definition kind_enum :: "ResourceDef \<Rightarrow> py_error + string" where
  "kind_enum r =
     (if operations r \<notin> {''R'', ''W'', ''RW'', ''E'', ''BS_RW''}
      then Inl (AssertionError (''unexpected operations: '' @ operations r))
      else if res_multiple r
      then (if CHR ''E'' \<in> set (operations r)
            then Inl (AssertionError
                   ''multiple-instance executable resources are not supported'')
            else Inr (''ANJ_DM_RES_'' @ operations r @ ''M''))
      else Inr (''ANJ_DM_RES_'' @ operations r))"


section \<open>The input document\<close>

text \<open>
  An \<^verbatim>\<open>xml.etree.ElementTree.Element\<close>: tag, attributes, text and children.
  \<^verbatim>\<open>find\<close> gives the first child with a tag or None, \<^verbatim>\<open>findall\<close> all of them in
  document order, \<^verbatim>\<open>get\<close> an attribute or None.
\<close>

datatype element =
  Element (tag: string) (attrib: "(string \<times> string) list") (el_text: "string option")
    (children: "element list")

definition find_child :: "element \<Rightarrow> string \<Rightarrow> element option" where
  "find_child e t = List.find (\<lambda>c. tag c = t) (children e)"

definition findall :: "element \<Rightarrow> string \<Rightarrow> element list" where
  "findall e t = filter (\<lambda>c. tag c = t) (children e)"

definition get_attrib :: "element \<Rightarrow> string \<Rightarrow> string option" where
  "get_attrib e k = map_of (attrib e) k"

text \<open>
  The functions of Python's library that the parser calls, as parameters:
  \<^verbatim>\<open>str.strip\<close>, \<^verbatim>\<open>str.upper\<close>, \<^verbatim>\<open>str.lower\<close>, \<^verbatim>\<open>int\<close> on a string (None where it
  raises ValueError), \<^verbatim>\<open>textwrap.fill\<close> and \<^verbatim>\<open>ElementTree.fromstring\<close> (None where it
  raises ParseError). Every theorem below holds for any behaviour of these.
\<close>

record py_lib =
  str_strip :: "string \<Rightarrow> string"
  str_upper :: "string \<Rightarrow> string"
  str_lower :: "string \<Rightarrow> string"
  int_of_str :: "string \<Rightarrow> int option"
  textwrap_fill :: "string \<Rightarrow> string"
  fromstring :: "string \<Rightarrow> element option"

definition node_text :: "py_lib \<Rightarrow> element option \<Rightarrow> string" where
  "node_text lib n =
     str_strip lib
       (case n of
          None \<Rightarrow> []
        | Some e \<Rightarrow> (case el_text e of None \<Rightarrow> [] | Some t \<Rightarrow> t))"

text \<open>\<^verbatim>\<open>int(x)\<close>: TypeError on None, ValueError on a string that is no integer.\<close>

definition py_int :: "py_lib \<Rightarrow> string option \<Rightarrow> py_error + int" where
  "py_int lib x =
     (case x of
        None \<Rightarrow> Inl TypeError
      | Some s \<Rightarrow>
          (case int_of_str lib s of
             None \<Rightarrow> Inl (ValueError (InvalidIntLiteral s))
           | Some i \<Rightarrow> Inr i))"

definition SINGLE_MULTIPLE :: "(string \<times> bool) list" where
  "SINGLE_MULTIPLE = [(''Single'', False), (''Multiple'', True)]"

definition OPTIONAL_MANDATORY :: "(string \<times> bool) list" where
  "OPTIONAL_MANDATORY = [(''Optional'', False), (''Mandatory'', True)]"

text \<open>
  \<^verbatim>\<open>ResourceDef.from_etree\<close>. The keyword arguments are evaluated in the order they are
  written, so the first of them that raises decides the exception.
\<close>

definition ResourceDef_from_etree :: "py_lib \<Rightarrow> element \<Rightarrow> py_error + ResourceDef" where
  "ResourceDef_from_etree lib res =
     (case py_int lib (get_attrib res ''ID'') of
        Inl e \<Rightarrow> Inl e
      | Inr rid_v \<Rightarrow>
     (case dict_getitem SINGLE_MULTIPLE (node_text lib (find_child res ''MultipleInstances'')) of
        Inl e \<Rightarrow> Inl e
      | Inr multiple_v \<Rightarrow>
     (case dict_getitem OPTIONAL_MANDATORY (node_text lib (find_child res ''Mandatory'')) of
        Inl e \<Rightarrow> Inl e
      | Inr mandatory_v \<Rightarrow>
          Inr \<lparr> rid = rid_v,
                res_name = node_text lib (find_child res ''Name''),
                operations =
                  str_or (str_upper lib (node_text lib (find_child res ''Operations''))) ''RW'',
                res_multiple = multiple_v,
                res_mandatory = mandatory_v,
                res_type = str_or (str_lower lib (node_text lib (find_child res ''Type''))) ''N/A'',
                range_enumeration =
                  str_or (node_text lib (find_child res ''RangeEnumeration'')) ''N/A'',
                units = str_or (node_text lib (find_child res ''Units'')) ''N/A'',
                res_description =
                  replace_newline ([CHR 0x0A, CHR 0x09] @ '' * '')
                    (textwrap_fill lib (node_text lib (find_child res ''Description''))) \<rparr>)))"

text \<open>
  \<^verbatim>\<open>ObjectDef.parse_resources\<close>. The object node is what \<^verbatim>\<open>tree.find('Object')\<close> gave, so
  it can be None; a method call on None raises AttributeError. \<^verbatim>\<open>sorted\<close> with a key is
  a stable sort, as \<^const>\<open>sort_key\<close> is.
\<close>

definition parse_resources :: "py_lib \<Rightarrow> element option \<Rightarrow> py_error + ResourceDef list" where
  "parse_resources lib obj =
     (case obj of
        None \<Rightarrow> Inl AttributeError
      | Some ob \<Rightarrow>
          (case find_child ob ''Resources'' of
             None \<Rightarrow> Inl AttributeError
           | Some rs \<Rightarrow>
               (case map_err (ResourceDef_from_etree lib) (findall rs ''Item'') of
                  Inl e \<Rightarrow> Inl e
                | Inr items \<Rightarrow> Inr (sort_key rid items))))"

text \<open>\<^verbatim>\<open>ObjectDef.from_etree\<close>; \<open>resources_subset\<close> is the list of \<^verbatim>\<open>--resources\<close> or None.\<close>

definition ObjectDef_from_etree ::
  "py_lib \<Rightarrow> element option \<Rightarrow> int list option \<Rightarrow> py_error + ObjectDef" where
  "ObjectDef_from_etree lib obj resources_subset =
     (case parse_resources lib obj of
        Inl e \<Rightarrow> Inl e
      | Inr parsed \<Rightarrow>
     (let rs = (case resources_subset of
                  None \<Rightarrow> parsed
                | Some allowed \<Rightarrow> filter (\<lambda>r. rid r \<in> set allowed) parsed)
      in
     (case obj of
        None \<Rightarrow> Inl AttributeError
      | Some ob \<Rightarrow>
     (case py_int lib (Some (node_text lib (find_child ob ''ObjectID''))) of
        Inl e \<Rightarrow> Inl e
      | Inr oid_v \<Rightarrow>
     (case dict_getitem SINGLE_MULTIPLE (node_text lib (find_child ob ''MultipleInstances'')) of
        Inl e \<Rightarrow> Inl e
      | Inr multiple_v \<Rightarrow>
     (case dict_getitem OPTIONAL_MANDATORY (node_text lib (find_child ob ''Mandatory'')) of
        Inl e \<Rightarrow> Inl e
      | Inr mandatory_v \<Rightarrow>
          Inr \<lparr> oid = oid_v,
                obj_name = node_text lib (find_child ob ''Name''),
                version = node_text lib (find_child ob ''ObjectVersion''),
                obj_description =
                  replace_newline (CHR 0x0A # '' * '')
                    (textwrap_fill lib (node_text lib (find_child ob ''Description1''))),
                urn = node_text lib (find_child ob ''ObjectURN''),
                obj_multiple = multiple_v,
                obj_mandatory = mandatory_v,
                resources = rs \<rparr>))))))"


section \<open>Template selection and rendering\<close>

text \<open>
  The keyword arguments handed to the template. The dictionary of resource instance
  counts is a map from resource ID to count.
\<close>

record template_args =
  ta_obj :: ObjectDef
  ta_transactional :: bool
  ta_resource_instances :: "int \<rightharpoonup> int"
  ta_dynamic_resources_instances :: bool
  ta_instances_number :: "int option"
  ta_dynamic_object_instances :: bool
  ta_date_time :: string

text \<open>
  The templates are files beside the script and their text is produced by jinja2, so the
  returned text is kept as the call that produces it:
  \<^verbatim>\<open>get_template(name).render\<close> on the keyword arguments.
\<close>

datatype rendered = Rendered (template_name: string) (render_args: template_args)

text \<open>
  The first loop of \<^verbatim>\<open>generate_object_boilerplate\<close>. The pairs come from
  \<^verbatim>\<open>--resources-instances-number\<close>, two integers each, so \<^verbatim>\<open>int(rid)\<close> and
  \<^verbatim>\<open>int(count)\<close> change nothing.
\<close>

fun collect_resource_instances ::
  "(int \<times> int) list \<Rightarrow> (int \<rightharpoonup> int) \<Rightarrow> py_error + (int \<rightharpoonup> int)" where
  "collect_resource_instances [] d = Inr d"
| "collect_resource_instances ((rid_v, count) # rest) d =
     (if d rid_v = None then collect_resource_instances rest (d(rid_v \<mapsto> count))
      else Inl (ValueError (RepeatedResourceID rid_v)))"

text \<open>The second loop: a multiple resource that has no entry yet gets 2.\<close>

fun default_resource_instances :: "ResourceDef list \<Rightarrow> (int \<rightharpoonup> int) \<Rightarrow> (int \<rightharpoonup> int)" where
  "default_resource_instances [] d = d"
| "default_resource_instances (r # rs) d =
     default_resource_instances rs
       (if res_multiple r \<and> d (rid r) = None then d(rid r \<mapsto> 2) else d)"

text \<open>Both loops; \<^verbatim>\<open>resource_instances or []\<close> reads None as the empty list.\<close>

definition resource_instances_dict ::
  "ObjectDef \<Rightarrow> (int \<times> int) list option \<Rightarrow> py_error + (int \<rightharpoonup> int)" where
  "resource_instances_dict obj resource_instances =
     (case collect_resource_instances
             (case resource_instances of None \<Rightarrow> [] | Some l \<Rightarrow> l) Map.empty of
        Inl e \<Rightarrow> Inl e
      | Inr d \<Rightarrow> Inr (default_resource_instances (resources obj) d))"

text \<open>The truth value of \<^verbatim>\<open>instances_number\<close>: None and 0 are false.\<close>

definition truthy :: "int option \<Rightarrow> bool" where
  "truthy n = (case n of None \<Rightarrow> False | Some v \<Rightarrow> v \<noteq> 0)"

text \<open>
  \<^verbatim>\<open>generate_object_boilerplate\<close>. \<open>now\<close> is the formatted time of the call. A call
  that reaches the end of the function without a \<^verbatim>\<open>return\<close> gives Python's None:
  \<^term>\<open>Inr None\<close>.
\<close>

definition generate_object_boilerplate ::
  "string \<Rightarrow> ObjectDef \<Rightarrow> int option \<Rightarrow> bool \<Rightarrow> (int \<times> int) list option \<Rightarrow> bool \<Rightarrow> bool
     \<Rightarrow> py_error + rendered option" where
  "generate_object_boilerplate now obj instances_number transactional resource_instances
       dynamic_resources dynamic_instances =
     (case resource_instances_dict obj resource_instances of
        Inl e \<Rightarrow> Inl e
      | Inr d \<Rightarrow>
     (let args = \<lparr> ta_obj = obj,
                    ta_transactional = transactional,
                    ta_resource_instances = d,
                    ta_dynamic_resources_instances = dynamic_resources,
                    ta_instances_number = instances_number,
                    ta_dynamic_object_instances = dynamic_instances,
                    ta_date_time = now \<rparr>
      in
        if obj_multiple obj = False \<or> (truthy instances_number \<and> instances_number = Some 1)
        then Inr (Some (Rendered C_SINGLE_INST_TEMPLATE_FILENAME args))
        else if truthy instances_number \<and> (case instances_number of None \<Rightarrow> False | Some v \<Rightarrow> v > 1)
        then Inr (Some (Rendered C_MULTIPLE_INSTS_TEMPLATE_FILENAME args))
        else Inr None))"


section \<open>The command line\<close>

text \<open>
  The namespace that \<^verbatim>\<open>parser.parse_args()\<close> returns. \<^verbatim>\<open>--instances-number\<close> has
  \<^verbatim>\<open>type=int\<close>, and the script itself still tests it for None.
\<close>

record args =
  arg_input :: "string option"
  arg_output :: string
  arg_list :: bool
  arg_resources :: "int list option"
  arg_transactional :: bool
  arg_instances_number :: "int option"
  arg_dynamic_instances :: bool
  arg_resources_instances_number :: "(int \<times> int) list option"
  arg_dynamic_resources_instances :: bool

text \<open>
  What the script finds outside itself: standard input, the files that can be opened for
  reading with their contents, the paths that can be opened for writing, and the clock.
\<close>

record env =
  stdin_text :: string
  files :: "string \<rightharpoonup> string"
  writable :: "string \<Rightarrow> bool"
  clock :: string

text \<open>
  What a run does, in order, and how it ends: \<^verbatim>\<open>sys.exit\<close> with a status, an exception
  nobody catches (the interpreter then exits with status 1), or the end of the script
  (status 0).
\<close>

datatype event =
    PrintUsage
  | ReadStdin
  | OpenForRead string
  | PrintResource int string bool
  | PrintNote string int
  | PrintStdout "rendered option"
  | WriteFile string "rendered option"

datatype outcome = Finished | SysExit int | Uncaught py_error

definition exit_status :: "outcome \<Rightarrow> int" where
  "exit_status out = (case out of Finished \<Rightarrow> 0 | SysExit n \<Rightarrow> n | Uncaught e \<Rightarrow> 1)"

definition is_note :: "event \<Rightarrow> bool" where
  "is_note ev = (case ev of PrintNote n c \<Rightarrow> True | _ \<Rightarrow> False)"

definition is_read :: "event \<Rightarrow> bool" where
  "is_read ev = (case ev of ReadStdin \<Rightarrow> True | OpenForRead p \<Rightarrow> True | _ \<Rightarrow> False)"

text \<open>An output of Python's None in place of generated text.\<close>

definition writes_none :: "event \<Rightarrow> bool" where
  "writes_none ev =
     (case ev of PrintStdout b \<Rightarrow> b = None | WriteFile p b \<Rightarrow> b = None | _ \<Rightarrow> False)"

text \<open>The input is read from standard input for \<^verbatim>\<open>-\<close>, from the named file otherwise.\<close>

definition read_input :: "env \<Rightarrow> string \<Rightarrow> event \<times> (py_error + string)" where
  "read_input e path =
     (if path = ''-'' then (ReadStdin, Inr (stdin_text e))
      else (OpenForRead path,
            case files e path of None \<Rightarrow> Inl (OSError path) | Some s \<Rightarrow> Inr s))"

text \<open>
  The script from \<^verbatim>\<open>ElementTree.fromstring\<close> on: parsing, \<^verbatim>\<open>--list\<close>, the note for an
  object that is not multiple, generation and output. \<^verbatim>\<open>None > 1\<close> raises TypeError.
\<close>

definition process :: "py_lib \<Rightarrow> env \<Rightarrow> args \<Rightarrow> string \<Rightarrow> event list \<times> outcome" where
  "process lib e a input_source =
     (case fromstring lib input_source of
        None \<Rightarrow> ([], Uncaught ParseError)
      | Some tree \<Rightarrow>
     (case ObjectDef_from_etree lib (find_child tree ''Object'') (arg_resources a) of
        Inl err \<Rightarrow> ([], Uncaught err)
      | Inr obj \<Rightarrow>
          if arg_list a
          then (map (\<lambda>r. PrintResource (rid r) (res_name r) (res_mandatory r)) (resources obj),
                SysExit 0)
          else
     (case arg_instances_number a of
        None \<Rightarrow> ([], Uncaught TypeError)
      | Some n \<Rightarrow>
     (let degrade = (n > 1 \<and> \<not> obj_multiple obj);
          notes = (if degrade then [PrintNote (obj_name obj) n] else []);
          instances_number = (if degrade then 1 else n)
      in
     (case generate_object_boilerplate (clock e) obj (Some instances_number)
             (arg_transactional a) (arg_resources_instances_number a)
             (arg_dynamic_resources_instances a) (arg_dynamic_instances a) of
        Inl err \<Rightarrow> (notes, Uncaught err)
      | Inr boilerplate \<Rightarrow>
          if arg_output a = ''-'' then (notes @ [PrintStdout boilerplate], Finished)
          else if writable e (arg_output a)
          then (notes @ [WriteFile (arg_output a) boilerplate], Finished)
          else (notes, Uncaught (OSError (arg_output a))))))))"

text \<open>
  The script from \<^verbatim>\<open>parser.parse_args()\<close> on, for a command line that argparse
  accepts (the help printed for an empty command line comes before it).
  \<^verbatim>\<open>x not in range(1, 65535)\<close> is \<open>\<not> (1 \<le> x \<and> x < 65535)\<close>.
\<close>

definition main :: "py_lib \<Rightarrow> env \<Rightarrow> args \<Rightarrow> event list \<times> outcome" where
  "main lib e a =
     (case arg_input a of
        None \<Rightarrow> ([PrintUsage], SysExit 1)
      | Some path \<Rightarrow>
          if (case arg_instances_number a of
                None \<Rightarrow> False
              | Some n \<Rightarrow> \<not> (1 \<le> n \<and> n < 65535))
          then ([PrintUsage], SysExit 1)
          else
            (case read_input e path of
               (ev, Inl err) \<Rightarrow> ([ev], Uncaught err)
             | (ev, Inr input_source) \<Rightarrow>
                 (case process lib e a input_source of
                    (evs, out) \<Rightarrow> (ev # evs, out))))"


section \<open>An example document\<close>

text \<open>
  A light-control object with three resources, written in the document in the order
  5, 1, 3, and library functions that are right on the strings of this document
  (no padding, no lower case in the operations, short descriptions).
\<close>

definition example_item :: "string \<Rightarrow> string \<Rightarrow> string \<Rightarrow> string \<Rightarrow> string \<Rightarrow> element" where
  "example_item i nm ops mult ty =
     Element ''Item'' [(''ID'', i)] None
       [Element ''Name'' [] (Some nm) [],
        Element ''Operations'' [] (Some ops) [],
        Element ''MultipleInstances'' [] (Some mult) [],
        Element ''Mandatory'' [] (Some ''Mandatory'') [],
        Element ''Type'' [] (Some ty) []]"

definition example_tree :: element where
  "example_tree =
     Element ''LWM2M'' [] None
       [Element ''Object'' [(''ObjectType'', ''MODefinition'')] None
          [Element ''Name'' [] (Some ''Light Control'') [],
           Element ''ObjectID'' [] (Some ''3311'') [],
           Element ''MultipleInstances'' [] (Some ''Multiple'') [],
           Element ''Mandatory'' [] (Some ''Optional'') [],
           Element ''Resources'' [] None
             [example_item ''5'' ''Dimmer'' ''RW'' ''Single'' ''integer'',
              example_item ''1'' ''On/Off'' ''RW'' ''Single'' ''boolean'',
              example_item ''3'' ''Colour'' ''RW'' ''Multiple'' ''string'']]]"

definition example_lib :: py_lib where
  "example_lib =
     \<lparr> str_strip = (\<lambda>s. s), str_upper = (\<lambda>s. s), str_lower = (\<lambda>s. s),
       int_of_str = map_of [(''1'', 1), (''3'', 3), (''5'', 5), (''3311'', 3311)],
       textwrap_fill = (\<lambda>s. s),
       fromstring = (\<lambda>s. if s = ''<LWM2M/>'' then Some example_tree else None) \<rparr>"

definition example_resource :: "int \<Rightarrow> string \<Rightarrow> bool \<Rightarrow> string \<Rightarrow> ResourceDef" where
  "example_resource i nm mult ty =
     \<lparr> rid = i, res_name = nm, operations = ''RW'', res_multiple = mult,
       res_mandatory = True, res_type = ty, range_enumeration = ''N/A'', units = ''N/A'',
       res_description = [] \<rparr>"

definition example_object :: ObjectDef where
  "example_object =
     \<lparr> oid = 3311, obj_name = ''Light Control'', version = [], obj_description = [],
       urn = [], obj_multiple = True, obj_mandatory = False,
       resources =
         [example_resource 1 ''On/Off'' False ''boolean'',
          example_resource 3 ''Colour'' True ''string'',
          example_resource 5 ''Dimmer'' False ''integer''] \<rparr>"

definition example_env :: env where
  "example_env =
     \<lparr> stdin_text = ''<LWM2M/>'', files = Map.empty, writable = (\<lambda>p. True),
       clock = ''2025-01-01 00:00:00'' \<rparr>"

definition example_args :: args where
  "example_args =
     \<lparr> arg_input = Some ''-'', arg_output = ''-'', arg_list = False, arg_resources = None,
       arg_transactional = False, arg_instances_number = Some 1,
       arg_dynamic_instances = False, arg_resources_instances_number = None,
       arg_dynamic_resources_instances = False \<rparr>"


section \<open>Properties of the identifier sanitizer\<close>

lemma underscore_not_alnum: "\<not> is_alnum (CHR ''_'')"
  by (simp add: is_alnum_def)

lemma dropWhile_head_alnum:
  "dropWhile (\<lambda>d. \<not> is_alnum d) cs = [] \<or> is_alnum (hd (dropWhile (\<lambda>d. \<not> is_alnum d) cs))"
  using hd_dropWhile [of "\<lambda>d. \<not> is_alnum d" cs] by auto

lemma sub_head_alnum:
  "xs = [] \<or> is_alnum (hd xs) \<Longrightarrow> NONALPHANUM_sub xs = [] \<or> is_alnum (hd (NONALPHANUM_sub xs))"
  by (cases xs) auto

lemma separated_sub: "separated (NONALPHANUM_sub s)"
proof (induction s rule: NONALPHANUM_sub.induct)
  case 1
  show ?case by simp
next
  case (2 c cs)
  show ?case
  proof (cases "is_alnum c")
    case True
    with 2 show ?thesis by simp
  next
    case False
    have "NONALPHANUM_sub (dropWhile (\<lambda>d. \<not> is_alnum d) cs) = []
        \<or> is_alnum (hd (NONALPHANUM_sub (dropWhile (\<lambda>d. \<not> is_alnum d) cs)))"
      by (rule sub_head_alnum [OF dropWhile_head_alnum])
    with False 2 show ?thesis by auto
  qed
qed

lemma sub_fixed: "separated s \<Longrightarrow> NONALPHANUM_sub s = s"
proof (induction s)
  case Nil
  show ?case by simp
next
  case (Cons c cs)
  show ?case
  proof (cases "is_alnum c")
    case True
    with Cons show ?thesis by simp
  next
    case False
    with Cons.prems have c: "c = CHR ''_''" and h: "cs = [] \<or> is_alnum (hd cs)" by auto
    from h have "dropWhile (\<lambda>d. \<not> is_alnum d) cs = cs" by (cases cs) auto
    with False c Cons show ?thesis by simp
  qed
qed

lemma separated_append_left: "separated (xs @ ys) \<Longrightarrow> separated xs"
proof (induction xs)
  case Nil
  show ?case by simp
next
  case (Cons c xs)
  then show ?case by (cases xs) auto
qed

lemma separated_dropWhile: "separated s \<Longrightarrow> separated (dropWhile P s)"
  by (induction s) auto

lemma separated_alnum_append:
  "\<forall>d \<in> set w. is_alnum d \<Longrightarrow> separated (w @ rest) = separated rest"
  by (induction w) auto

lemma separated_chars: "separated s \<Longrightarrow> c \<in> set s \<Longrightarrow> is_alnum c \<or> c = CHR ''_''"
  by (induction s) auto

lemma rstrip_prefix:
  "u = rev (dropWhile P (rev u)) @ rev (takeWhile P (rev u))"
  by (metis rev_append rev_rev_ident takeWhile_dropWhile_id)

lemma separated_strip: "separated s \<Longrightarrow> separated (strip_underscores s)"
proof -
  assume s: "separated s"
  let ?u = "dropWhile (\<lambda>c. c = CHR ''_'') s"
  have "separated ?u" using s by (rule separated_dropWhile)
  then have "separated (rev (dropWhile (\<lambda>c. c = CHR ''_'') (rev ?u))
                       @ rev (takeWhile (\<lambda>c. c = CHR ''_'') (rev ?u)))"
    using rstrip_prefix [of ?u "\<lambda>c. c = CHR ''_''"] by simp
  then show ?thesis unfolding strip_underscores_def by (rule separated_append_left)
qed

lemma strip_last: "strip_underscores s \<noteq> [] \<Longrightarrow> last (strip_underscores s) \<noteq> CHR ''_''"
proof -
  assume ne: "strip_underscores s \<noteq> []"
  let ?d = "dropWhile (\<lambda>c. c = CHR ''_'') (rev (dropWhile (\<lambda>c. c = CHR ''_'') s))"
  from ne have d: "?d \<noteq> []" by (simp add: strip_underscores_def)
  then have "hd ?d \<noteq> CHR ''_''" using hd_dropWhile [of "\<lambda>c. c = CHR ''_''"] by blast
  moreover have "last (rev ?d) = hd ?d" using d by (simp add: last_rev)
  ultimately show ?thesis by (simp add: strip_underscores_def)
qed

lemma strip_hd: "strip_underscores s \<noteq> [] \<Longrightarrow> hd (strip_underscores s) \<noteq> CHR ''_''"
proof -
  assume ne: "strip_underscores s \<noteq> []"
  define u where "u = dropWhile (\<lambda>c. c = CHR ''_'') s"
  define r where "r = rev (takeWhile (\<lambda>c. c = CHR ''_'') (rev u))"
  have t: "strip_underscores s = rev (dropWhile (\<lambda>c. c = CHR ''_'') (rev u))"
    by (simp only: strip_underscores_def u_def)
  have "u = rev (dropWhile (\<lambda>c. c = CHR ''_'') (rev u)) @ r"
    unfolding r_def by (rule rstrip_prefix)
  then have split: "u = strip_underscores s @ r" by (simp only: t)
  from split ne have une: "u \<noteq> []" by (cases "strip_underscores s") simp_all
  from split ne have same: "hd u = hd (strip_underscores s)"
    by (cases "strip_underscores s") simp_all
  from une have "hd u \<noteq> CHR ''_''"
    unfolding u_def using hd_dropWhile [of "\<lambda>c. c = CHR ''_''" s] by blast
  with same show ?thesis by simp
qed

lemma strip_fixed:
  "s \<noteq> [] \<Longrightarrow> hd s \<noteq> CHR ''_'' \<Longrightarrow> last s \<noteq> CHR ''_'' \<Longrightarrow> strip_underscores s = s"
proof -
  assume ne: "s \<noteq> []" and h: "hd s \<noteq> CHR ''_''" and l: "last s \<noteq> CHR ''_''"
  from ne h have 1: "dropWhile (\<lambda>c. c = CHR ''_'') s = s" by (cases s) auto
  from ne l have "hd (rev s) \<noteq> CHR ''_''" by (simp add: hd_rev)
  with ne have 2: "dropWhile (\<lambda>c. c = CHR ''_'') (rev s) = rev s" by (cases "rev s") auto
  show ?thesis by (simp add: strip_underscores_def 1 2)
qed

lemma spelling_shape:
  "is_alnum c \<Longrightarrow>
     dict_get DIGIT_SPELLINGS c [c] \<noteq> [] \<and>
     (\<forall>d \<in> set (dict_get DIGIT_SPELLINGS c [c]). is_alnum d) \<and>
     map_of DIGIT_SPELLINGS (hd (dict_get DIGIT_SPELLINGS c [c])) = None"
  by (simp add: dict_get_def DIGIT_SPELLINGS_def is_alnum_def)

lemma sanitize_shape:
  assumes "sanitize_identifier n = Inr y"
  shows "separated y \<and> y \<noteq> [] \<and> hd y \<noteq> CHR ''_'' \<and> last y \<noteq> CHR ''_''
         \<and> map_of DIGIT_SPELLINGS (hd y) = None"
proof -
  define t where "t = strip_underscores (NONALPHANUM_sub n)"
  from assms obtain c rest where t: "t = c # rest"
    and y: "y = dict_get DIGIT_SPELLINGS c [c] @ rest"
    by (auto simp: sanitize_identifier_def t_def split: list.splits)
  define w where "w = dict_get DIGIT_SPELLINGS c [c]"
  have sep_t: "separated t" unfolding t_def by (rule separated_strip [OF separated_sub])
  have "hd t \<noteq> CHR ''_''" unfolding t_def using t t_def by (intro strip_hd) simp
  with t have c_us: "c \<noteq> CHR ''_''" by simp
  with sep_t t have c_al: "is_alnum c" by simp
  have last_t: "last t \<noteq> CHR ''_''" unfolding t_def using t t_def by (intro strip_last) simp
  from spelling_shape [OF c_al] have w_ne: "w \<noteq> []" and w_al: "\<forall>d \<in> set w. is_alnum d"
    and w_hd: "map_of DIGIT_SPELLINGS (hd w) = None" by (simp_all add: w_def)
  from sep_t t have "separated rest" by simp
  with w_al have 1: "separated (w @ rest)" by (simp add: separated_alnum_append)
  from w_ne w_al have "is_alnum (hd w)" by (cases w) auto
  then have 2: "hd w \<noteq> CHR ''_''" using underscore_not_alnum by auto
  have 3: "last (w @ rest) \<noteq> CHR ''_''"
  proof (cases "rest = []")
    case True
    from w_ne w_al have "is_alnum (last w)" by simp
    then show ?thesis using True underscore_not_alnum by auto
  next
    case False
    then show ?thesis using last_t t by simp
  qed
  show ?thesis using 1 2 3 w_ne w_hd by (simp add: y w_def [symmetric])
qed

lemma sanitize_fixed:
  assumes "separated y" "y \<noteq> []" "hd y \<noteq> CHR ''_''" "last y \<noteq> CHR ''_''"
    "map_of DIGIT_SPELLINGS (hd y) = None"
  shows "sanitize_identifier y = Inr y"
proof -
  from assms obtain c rest where y: "y = c # rest" by (cases y) auto
  have "strip_underscores (NONALPHANUM_sub y) = y"
    using assms by (simp add: sub_fixed strip_fixed)
  then show ?thesis using assms(5) by (simp add: sanitize_identifier_def y dict_get_def)
qed

text \<open>Whatever the sanitizer returns is an identifier.\<close>

lemma sanitize_valid:
  "sanitize_identifier n = Inr y \<Longrightarrow> valid_identifier y"
proof -
  assume a: "sanitize_identifier n = Inr y"
  from sanitize_shape [OF a] have s: "separated y" and ne: "y \<noteq> []"
    and d: "map_of DIGIT_SPELLINGS (hd y) = None" by simp_all
  from s have "list_all (\<lambda>c. is_alnum c \<or> c = CHR ''_'') y"
    unfolding list_all_iff using separated_chars by blast
  with ne d show ?thesis by (simp add: valid_identifier_def)
qed

lemma dropWhile_all: "(\<forall>x \<in> set (dropWhile P s). P x) \<longleftrightarrow> (\<forall>x \<in> set s. P x)"
  by (induction s) auto

lemma strip_empty_iff: "strip_underscores s = [] \<longleftrightarrow> (\<forall>c \<in> set s. c = CHR ''_'')"
proof -
  have "strip_underscores s = [] \<longleftrightarrow>
      (\<forall>c \<in> set (dropWhile (\<lambda>c. c = CHR ''_'') s). c = CHR ''_'')"
    by (simp add: strip_underscores_def dropWhile_eq_Nil_conv)
  then show ?thesis by (simp only: dropWhile_all)
qed

lemma filter_alnum_sub: "filter is_alnum (NONALPHANUM_sub n) = filter is_alnum n"
proof (induction n rule: NONALPHANUM_sub.induct)
  case 1
  show ?case by simp
next
  case (2 c cs)
  have "filter is_alnum (dropWhile (\<lambda>d. \<not> is_alnum d) cs) = filter is_alnum cs"
    by (induction cs) auto
  with 2 show ?case by (auto simp: underscore_not_alnum)
qed

lemma sub_chars: "c \<in> set (NONALPHANUM_sub n) \<Longrightarrow> c = CHR ''_'' \<or> (is_alnum c \<and> c \<in> set n)"
proof (induction n rule: NONALPHANUM_sub.induct)
  case 1
  then show ?case by simp
next
  case (2 d cs)
  then show ?case by (auto split: if_splits dest: set_dropWhileD)
qed

text \<open>
  The sanitizer raises exactly on the strings that have no letter and no digit, the
  empty string among them.
\<close>

lemma sanitize_raises_iff:
  "sanitize_identifier n = Inl IndexError \<longleftrightarrow> filter is_alnum n = []"
proof
  assume "sanitize_identifier n = Inl IndexError"
  then have "strip_underscores (NONALPHANUM_sub n) = []"
    by (simp add: sanitize_identifier_def split: list.splits)
  then have all_us: "\<forall>c \<in> set (NONALPHANUM_sub n). c = CHR ''_''"
    by (simp only: strip_empty_iff)
  have "\<forall>c \<in> set (NONALPHANUM_sub n). \<not> is_alnum c"
  proof
    fix c assume "c \<in> set (NONALPHANUM_sub n)"
    with all_us have "c = CHR ''_''" by blast
    then show "\<not> is_alnum c" by (simp only: underscore_not_alnum not_False_eq_True)
  qed
  then have "filter is_alnum (NONALPHANUM_sub n) = []" by (simp only: filter_empty_conv)
  then show "filter is_alnum n = []" by (simp only: filter_alnum_sub)
next
  assume "filter is_alnum n = []"
  then have none: "\<forall>c \<in> set n. \<not> is_alnum c" by (simp only: filter_empty_conv)
  have "\<forall>c \<in> set (NONALPHANUM_sub n). c = CHR ''_''"
  proof
    fix c assume "c \<in> set (NONALPHANUM_sub n)"
    from sub_chars [OF this] none show "c = CHR ''_''" by blast
  qed
  then have "strip_underscores (NONALPHANUM_sub n) = []" by (simp only: strip_empty_iff)
  then show "sanitize_identifier n = Inl IndexError" by (simp add: sanitize_identifier_def)
qed

text \<open>
  C4. On the empty string, and on a string with no letter and no digit, the sanitizer
  returns no identifier: \<^verbatim>\<open>identifier[0]\<close> raises IndexError.
\<close>

theorem sanitize_identifier_empty_raises:
  "sanitize_identifier '''' = Inl IndexError \<and> sanitize_identifier ''-_ -'' = Inl IndexError"
  by (simp add: sanitize_identifier_def strip_underscores_def is_alnum_def)

text \<open>
  C6. The sanitizer is idempotent wherever it returns: sanitizing its result gives the
  result back.
\<close>

theorem sanitize_identifier_idempotent:
  "sanitize_identifier x = Inr y \<Longrightarrow> sanitize_identifier y = Inr y"
proof -
  assume "sanitize_identifier x = Inr y"
  from sanitize_shape [OF this] show ?thesis by (intro sanitize_fixed) simp_all
qed

theorem sanitize_identifier_idempotent_witness:
  "sanitize_identifier ''1 a--b__'' = Inr ''one_a_b''
   \<and> sanitize_identifier ''one_a_b'' = Inr ''one_a_b''"
proof -
  have h: "sanitize_identifier ''1 a--b__'' = Inr ''one_a_b''"
    by (simp add: sanitize_identifier_def strip_underscores_def is_alnum_def dict_get_def
        DIGIT_SPELLINGS_def)
  show ?thesis using h sanitize_identifier_idempotent [OF h] by simp
qed


section \<open>The access-mode tag\<close>

text \<open>
  C3, as stated, fails: an executable resource marked multiple has an operations string of
  the enumeration, and \<^verbatim>\<open>kind_enum\<close> raises on it.
\<close>

theorem kind_enum_executable_multiple_counterexample:
  "operations (example_resource 4 ''Reboot'' True [] \<lparr> operations := ''E'' \<rparr>)
      \<in> {''R'', ''W'', ''RW'', ''E'', ''BS_RW''}
   \<and> kind_enum (example_resource 4 ''Reboot'' True [] \<lparr> operations := ''E'' \<rparr>)
      = Inl (AssertionError ''multiple-instance executable resources are not supported'')"
  by (simp add: kind_enum_def example_resource_def)

text \<open>
  C3, amended. \<^verbatim>\<open>kind_enum\<close> fails exactly when the operations string is outside
  R, W, RW, E, BS_RW, or the resource is multiple and executable; so it never fails for
  an operations string of the enumeration on a resource that is not both.
\<close>

theorem kind_enum_fails_iff:
  "isl (kind_enum r) \<longleftrightarrow>
     operations r \<notin> {''R'', ''W'', ''RW'', ''E'', ''BS_RW''}
     \<or> (res_multiple r \<and> operations r = ''E'')"
  by (auto simp: kind_enum_def)

text \<open>
  C3, witness: no failure for a single RW resource, failure for a multiple E resource and
  for an operations string outside the enumeration.
\<close>

theorem kind_enum_fails_iff_witness:
  "\<not> isl (kind_enum (example_resource 1 ''On/Off'' False ''boolean''))
   \<and> operations (example_resource 1 ''On/Off'' False ''boolean'')
       \<in> {''R'', ''W'', ''RW'', ''E'', ''BS_RW''}
   \<and> isl (kind_enum (example_resource 4 ''Reboot'' True [] \<lparr> operations := ''E'' \<rparr>))
   \<and> isl (kind_enum (example_resource 4 ''Reboot'' True [] \<lparr> operations := ''go'' \<rparr>))"
  using kind_enum_fails_iff [of "example_resource 1 ''On/Off'' False ''boolean''"]
    kind_enum_fails_iff [of "example_resource 4 ''Reboot'' True [] \<lparr> operations := ''E'' \<rparr>"]
    kind_enum_fails_iff [of "example_resource 4 ''Reboot'' True [] \<lparr> operations := ''go'' \<rparr>"]
  by (simp add: example_resource_def)


section \<open>Resource instance counts\<close>

lemma collect_repeated:
  "\<not> distinct (map fst l) \<or> (\<exists>k \<in> fst ` set l. d k \<noteq> None) \<Longrightarrow>
     \<exists>k \<in> fst ` set l. collect_resource_instances l d = Inl (ValueError (RepeatedResourceID k))"
proof (induction l arbitrary: d)
  case Nil
  then show ?case by simp
next
  case (Cons p l)
  obtain k c where p: "p = (k, c)" by (cases p)
  show ?case
  proof (cases "d k = None")
    case False
    then obtain v where "d k = Some v" by auto
    then have "collect_resource_instances (p # l) d = Inl (ValueError (RepeatedResourceID k))"
      by (simp add: p)
    moreover have "k \<in> fst ` set (p # l)" by (simp add: p)
    ultimately show ?thesis by blast
  next
    case True
    then have step: "collect_resource_instances (p # l) d
        = collect_resource_instances l (d(k \<mapsto> c))" by (simp add: p)
    have "\<not> distinct (map fst l) \<or> (\<exists>j \<in> fst ` set l. (d(k \<mapsto> c)) j \<noteq> None)"
      using Cons.prems True by (auto simp: p)
    from Cons.IH [OF this] obtain j where "j \<in> fst ` set l"
      and "collect_resource_instances l (d(k \<mapsto> c)) = Inl (ValueError (RepeatedResourceID j))"
      by blast
    then have "j \<in> fst ` set (p # l)"
      and "collect_resource_instances (p # l) d = Inl (ValueError (RepeatedResourceID j))"
      by (simp_all only: step set_simps image_insert insert_iff simp_thms)
    then show ?thesis by blast
  qed
qed

lemma collect_distinct:
  "distinct (map fst l) \<Longrightarrow> \<forall>k \<in> fst ` set l. d k = None \<Longrightarrow>
     collect_resource_instances l d = Inr (d ++ map_of l)"
proof (induction l arbitrary: d)
  case Nil
  then show ?case by simp
next
  case (Cons p l)
  obtain k c where p: "p = (k, c)" by (cases p)
  have 1: "distinct (map fst l)" using Cons.prems by simp
  have 2: "\<forall>j \<in> fst ` set l. (d(k \<mapsto> c)) j = None" using Cons.prems by (auto simp: p)
  have k: "k \<notin> dom (map_of l)" using Cons.prems by (simp add: p dom_map_of_conv_image_fst)
  have "d k = None" using Cons.prems by (simp add: p)
  then have step: "collect_resource_instances (p # l) d
      = collect_resource_instances l (d(k \<mapsto> c))" by (simp add: p)
  have "d(k \<mapsto> c) ++ map_of l = (d ++ map_of l)(k \<mapsto> c)"
    using k by (rule map_add_upd_left)
  also have "\<dots> = d ++ (map_of l)(k \<mapsto> c)" by (simp only: map_add_upd)
  also have "(map_of l)(k \<mapsto> c) = map_of (p # l)" by (simp only: p map_of.simps fst_conv snd_conv)
  finally have "d(k \<mapsto> c) ++ map_of l = d ++ map_of (p # l)" .
  with Cons.IH [OF 1 2] step show ?case by (simp only:)
qed


lemma default_lookup:
  "default_resource_instances rs d k =
     (case d k of
        Some v \<Rightarrow> Some v
      | None \<Rightarrow> if \<exists>r \<in> set rs. res_multiple r \<and> rid r = k then Some 2 else None)"
proof (induction rs arbitrary: d)
  case Nil
  show ?case by (simp split: option.splits)
next
  case (Cons r rs)
  show ?case
    by (simp only: default_resource_instances.simps Cons.IH) (auto split: option.splits)
qed

lemma resource_instances_dict_Inr:
  assumes "distinct (map fst (case ri of None \<Rightarrow> [] | Some l \<Rightarrow> l))"
  shows "resource_instances_dict obj ri =
           Inr (default_resource_instances (resources obj)
                  (map_of (case ri of None \<Rightarrow> [] | Some l \<Rightarrow> l)))"
  using collect_distinct [OF assms, of Map.empty]
  by (simp add: resource_instances_dict_def)

lemma resource_instances_dict_Inl:
  assumes "\<not> distinct (map fst (case ri of None \<Rightarrow> [] | Some l \<Rightarrow> l))"
  shows "\<exists>k \<in> fst ` set (case ri of None \<Rightarrow> [] | Some l \<Rightarrow> l).
           resource_instances_dict obj ri = Inl (ValueError (RepeatedResourceID k))"
proof -
  from assms have "\<not> distinct (map fst (case ri of None \<Rightarrow> [] | Some l \<Rightarrow> l))
      \<or> (\<exists>k \<in> fst ` set (case ri of None \<Rightarrow> [] | Some l \<Rightarrow> l). Map.empty k \<noteq> None)"
    by blast
  from collect_repeated [OF this] obtain k
    where k: "k \<in> fst ` set (case ri of None \<Rightarrow> [] | Some l \<Rightarrow> l)"
    and c: "collect_resource_instances (case ri of None \<Rightarrow> [] | Some l \<Rightarrow> l) Map.empty
              = Inl (ValueError (RepeatedResourceID k))"
    by blast
  from c have "resource_instances_dict obj ri = Inl (ValueError (RepeatedResourceID k))"
    by (simp add: resource_instances_dict_def)
  with k show ?thesis by blast
qed

text \<open>
  C10. An override list in which a resource ID appears more than once makes generation
  raise ValueError, whatever the counts of the repeated entries are.
\<close>

theorem repeated_resource_id_raises:
  "\<not> distinct (map fst l) \<Longrightarrow>
     \<exists>k \<in> fst ` set l.
       generate_object_boilerplate now obj n tr (Some l) dr di
         = Inl (ValueError (RepeatedResourceID k))"
proof -
  assume "\<not> distinct (map fst l)"
  then have "\<not> distinct (map fst (case Some l of None \<Rightarrow> [] | Some l \<Rightarrow> l))" by simp
  from resource_instances_dict_Inl [OF this, of obj] obtain k where "k \<in> fst ` set l"
    and "resource_instances_dict obj (Some l) = Inl (ValueError (RepeatedResourceID k))"
    by auto
  then show ?thesis by (auto simp: generate_object_boilerplate_def)
qed

text \<open>C10, witness: the same resource ID twice with the same count.\<close>

theorem repeated_resource_id_raises_witness:
  "\<not> distinct (map fst [(7, 3), (7, 3 :: int)])
   \<and> generate_object_boilerplate ''2025-01-01 00:00:00'' example_object (Some 2) False
        (Some [(7, 3), (7, 3)]) False False
      = Inl (ValueError (RepeatedResourceID 7))"
  using repeated_resource_id_raises [of "[(7, 3), (7, 3)]" "''2025-01-01 00:00:00''"
      example_object "Some 2" False False False]
  by simp

text \<open>
  C9. In every call that renders, the mapping handed to the template gives each override
  its count, gives 2 to each multiple resource that has no override, and has no entry for
  an ID that has no override and belongs to no multiple resource.
\<close>

theorem resolved_resource_instances:
  assumes "generate_object_boilerplate now obj n tr ri dr di = Inr (Some g)"
  shows "(\<forall>(k, c) \<in> set (case ri of None \<Rightarrow> [] | Some l \<Rightarrow> l).
            ta_resource_instances (render_args g) k = Some c)
       \<and> (\<forall>r \<in> set (resources obj).
            res_multiple r \<and> rid r \<notin> fst ` set (case ri of None \<Rightarrow> [] | Some l \<Rightarrow> l)
            \<longrightarrow> ta_resource_instances (render_args g) (rid r) = Some 2)
       \<and> (\<forall>k. k \<notin> fst ` set (case ri of None \<Rightarrow> [] | Some l \<Rightarrow> l)
              \<and> (\<forall>r \<in> set (resources obj). rid r = k \<longrightarrow> \<not> res_multiple r)
            \<longrightarrow> ta_resource_instances (render_args g) k = None)"
proof -
  define l where "l = (case ri of None \<Rightarrow> [] | Some l \<Rightarrow> l)"
  define d where "d = default_resource_instances (resources obj) (map_of l)"
  have dist: "distinct (map fst l)"
  proof (rule ccontr)
    assume "\<not> distinct (map fst l)"
    then have "\<not> distinct (map fst (case ri of None \<Rightarrow> [] | Some l \<Rightarrow> l))" by (simp add: l_def)
    from resource_instances_dict_Inl [OF this, of obj] assms show False
      by (auto simp: generate_object_boilerplate_def)
  qed
  then have "resource_instances_dict obj ri = Inr d"
    unfolding d_def l_def by (rule resource_instances_dict_Inr)
  with assms have g: "ta_resource_instances (render_args g) = d"
    by (auto simp: generate_object_boilerplate_def Let_def split: if_splits)
  have look: "\<And>k. d k = (case map_of l k of Some v \<Rightarrow> Some v
      | None \<Rightarrow> if \<exists>r \<in> set (resources obj). res_multiple r \<and> rid r = k then Some 2 else None)"
    unfolding d_def by (rule default_lookup)
  have 1: "\<forall>(k, c) \<in> set l. d k = Some c"
    using dist by (auto simp: look)
  have none: "\<And>k. k \<notin> fst ` set l \<Longrightarrow> map_of l k = None"
    by (simp add: map_of_eq_None_iff)
  have 2: "\<forall>r \<in> set (resources obj). res_multiple r \<and> rid r \<notin> fst ` set l \<longrightarrow> d (rid r) = Some 2"
    by (auto simp: look none)
  have 3: "\<forall>k. k \<notin> fst ` set l \<and> (\<forall>r \<in> set (resources obj). rid r = k \<longrightarrow> \<not> res_multiple r)
      \<longrightarrow> d k = None"
    by (auto simp: look none)
  from 1 2 3 show ?thesis unfolding g l_def by blast
qed


text \<open>
  C9, witness: resources 1 (single), 3 (multiple) and 5 (single), with an override of 4
  for resource 5.
\<close>

theorem resolved_resource_instances_witness:
  "generate_object_boilerplate ''2025-01-01 00:00:00'' example_object (Some 3) False
       (Some [(5, 4)]) False False
     = Inr (Some (Rendered C_MULTIPLE_INSTS_TEMPLATE_FILENAME
         \<lparr> ta_obj = example_object, ta_transactional = False,
           ta_resource_instances = [5 \<mapsto> 4, 3 \<mapsto> 2],
           ta_dynamic_resources_instances = False, ta_instances_number = Some 3,
           ta_dynamic_object_instances = False, ta_date_time = ''2025-01-01 00:00:00'' \<rparr>))
   \<and> ([5 \<mapsto> 4, 3 \<mapsto> 2] :: int \<rightharpoonup> int) 5 = Some 4
   \<and> ([5 \<mapsto> 4, 3 \<mapsto> 2] :: int \<rightharpoonup> int) 3 = Some 2
   \<and> ([5 \<mapsto> 4, 3 \<mapsto> 2] :: int \<rightharpoonup> int) 1 = None"
proof -
  have h: "generate_object_boilerplate ''2025-01-01 00:00:00'' example_object (Some 3) False
       (Some [(5, 4)]) False False
     = Inr (Some (Rendered C_MULTIPLE_INSTS_TEMPLATE_FILENAME
         \<lparr> ta_obj = example_object, ta_transactional = False,
           ta_resource_instances = [5 \<mapsto> 4, 3 \<mapsto> 2],
           ta_dynamic_resources_instances = False, ta_instances_number = Some 3,
           ta_dynamic_object_instances = False, ta_date_time = ''2025-01-01 00:00:00'' \<rparr>))"
    by (simp add: generate_object_boilerplate_def resource_instances_dict_def truthy_def
        example_object_def example_resource_def)
  show ?thesis using h resolved_resource_instances [OF h] by simp
qed


section \<open>Order of the parsed resources\<close>

lemma parse_resources_sorted:
  "parse_resources lib obj = Inr rs \<Longrightarrow> sorted (map rid rs)"
  by (auto simp: parse_resources_def split: option.splits sum.splits)

text \<open>
  C7. The resources that \<^verbatim>\<open>parse_resources\<close> returns are in ascending order of their
  IDs, whatever the order of the items in the document, and so are the resources of the
  object that \<^verbatim>\<open>ObjectDef.from_etree\<close> builds, with or without the list of allowed IDs.
\<close>

theorem resources_sorted_by_rid:
  "(parse_resources lib obj = Inr rs \<longrightarrow> sorted (map rid rs))
   \<and> (ObjectDef_from_etree lib obj allowed = Inr od \<longrightarrow> sorted (map rid (resources od)))"
proof (intro conjI impI)
  assume "parse_resources lib obj = Inr rs"
  then show "sorted (map rid rs)" by (rule parse_resources_sorted)
next
  assume a: "ObjectDef_from_etree lib obj allowed = Inr od"
  then obtain parsed where p: "parse_resources lib obj = Inr parsed"
    by (auto simp: ObjectDef_from_etree_def split: sum.splits)
  from a p have "resources od =
      (case allowed of None \<Rightarrow> parsed | Some ids \<Rightarrow> filter (\<lambda>r. rid r \<in> set ids) parsed)"
    by (auto simp: ObjectDef_from_etree_def Let_def split: sum.splits option.splits)
  moreover have "sorted (map rid parsed)" using p by (rule parse_resources_sorted)
  ultimately show "sorted (map rid (resources od))"
    by (auto split: option.splits intro: sorted_filter)
qed

lemma example_parse:
  "parse_resources example_lib (find_child example_tree ''Object'')
     = Inr [example_resource 1 ''On/Off'' False ''boolean'',
            example_resource 3 ''Colour'' True ''string'',
            example_resource 5 ''Dimmer'' False ''integer'']"
  by (simp add: parse_resources_def find_child_def findall_def example_tree_def
      example_item_def ResourceDef_from_etree_def py_int_def get_attrib_def example_lib_def
      dict_getitem_def SINGLE_MULTIPLE_def OPTIONAL_MANDATORY_def node_text_def str_or_def
      replace_newline_def example_resource_def)

lemma example_from_etree:
  "ObjectDef_from_etree example_lib (find_child example_tree ''Object'') None
     = Inr example_object"
  by (simp add: ObjectDef_from_etree_def example_parse)
    (simp add: find_child_def example_tree_def py_int_def example_lib_def
      dict_getitem_def SINGLE_MULTIPLE_def OPTIONAL_MANDATORY_def node_text_def
      replace_newline_def example_object_def)

lemma example_from_etree_filtered:
  "ObjectDef_from_etree example_lib (find_child example_tree ''Object'') (Some [5, 1, 9])
     = Inr (example_object \<lparr> resources :=
              [example_resource 1 ''On/Off'' False ''boolean'',
               example_resource 5 ''Dimmer'' False ''integer''] \<rparr>)"
  by (simp add: ObjectDef_from_etree_def example_parse)
    (simp add: find_child_def example_tree_def py_int_def example_lib_def
      dict_getitem_def SINGLE_MULTIPLE_def OPTIONAL_MANDATORY_def node_text_def
      replace_newline_def example_object_def example_resource_def)


text \<open>
  C7, witness: items written in the order 5, 1, 3 are parsed to the order 1, 3, 5, and
  with the allowed IDs 5, 1, 9 to the order 1, 5.
\<close>

theorem resources_sorted_by_rid_witness:
  "parse_resources example_lib (find_child example_tree ''Object'')
     = Inr [example_resource 1 ''On/Off'' False ''boolean'',
            example_resource 3 ''Colour'' True ''string'',
            example_resource 5 ''Dimmer'' False ''integer'']
   \<and> map rid [example_resource 1 ''On/Off'' False ''boolean'',
               example_resource 3 ''Colour'' True ''string'',
               example_resource 5 ''Dimmer'' False ''integer''] = [1, 3, 5]
   \<and> sorted [1, 3, 5 :: int]
   \<and> map rid (resources (example_object \<lparr> resources :=
              [example_resource 1 ''On/Off'' False ''boolean'',
               example_resource 5 ''Dimmer'' False ''integer''] \<rparr>)) = [1, 5]
   \<and> sorted [1, 5 :: int]"
  using resources_sorted_by_rid [of example_lib "find_child example_tree ''Object''"
      "[example_resource 1 ''On/Off'' False ''boolean'',
        example_resource 3 ''Colour'' True ''string'',
        example_resource 5 ''Dimmer'' False ''integer'']"
      "Some [5, 1, 9]"
      "example_object \<lparr> resources :=
              [example_resource 1 ''On/Off'' False ''boolean'',
               example_resource 5 ''Dimmer'' False ''integer''] \<rparr>"]
    example_parse example_from_etree_filtered
  by (simp add: example_resource_def)


section \<open>The range of the number of instances\<close>

text \<open>
  C8. A value of \<^verbatim>\<open>--instances-number\<close> below 1 or above 65534 ends the run with the
  usage message and status 1, and nothing is read. With an input given, every value from
  1 to 65534, both ends included, passes the check: the run goes on to read the input.
\<close>

theorem instances_number_range:
  "(arg_instances_number a = Some n \<and> (n < 1 \<or> 65534 < n)
      \<longrightarrow> main lib e a = ([PrintUsage], SysExit 1)
          \<and> exit_status (snd (main lib e a)) \<noteq> 0
          \<and> filter is_read (fst (main lib e a)) = [])
   \<and> (arg_input a = Some path \<and> arg_instances_number a = Some n \<and> 1 \<le> n \<and> n \<le> 65534
      \<longrightarrow> (\<exists>evs. fst (main lib e a) = fst (read_input e path) # evs)
          \<and> is_read (fst (read_input e path)))"
  by (auto simp: main_def read_input_def is_read_def exit_status_def
      split: option.splits sum.splits prod.splits)

text \<open>C8, witness: 70000 is refused, 1 and 65534 are accepted.\<close>

theorem instances_number_range_witness:
  "main example_lib example_env (example_args \<lparr> arg_instances_number := Some 70000 \<rparr>)
     = ([PrintUsage], SysExit 1)
   \<and> exit_status (SysExit 1) \<noteq> 0
   \<and> hd (fst (main example_lib example_env (example_args \<lparr> arg_instances_number := Some 1 \<rparr>)))
       = ReadStdin
   \<and> hd (fst (main example_lib example_env
                (example_args \<lparr> arg_instances_number := Some 65534 \<rparr>)))
       = ReadStdin"
  using instances_number_range [where a = "example_args \<lparr> arg_instances_number := Some 70000 \<rparr>"
      and n = 70000 and lib = example_lib and e = example_env]
    instances_number_range [where a = "example_args \<lparr> arg_instances_number := Some 1 \<rparr>"
      and n = 1 and path = "''-''" and lib = example_lib and e = example_env]
    instances_number_range [where a = "example_args \<lparr> arg_instances_number := Some 65534 \<rparr>"
      and n = 65534 and path = "''-''" and lib = example_lib and e = example_env]
  by (auto simp: example_args_def read_input_def exit_status_def)



section \<open>Template selection\<close>

lemma generate_after_dict:
  "resource_instances_dict obj ri = Inr d \<Longrightarrow>
     generate_object_boilerplate now obj n tr ri dr di =
       (if \<not> obj_multiple obj \<or> n = Some 1
        then Inr (Some (Rendered C_SINGLE_INST_TEMPLATE_FILENAME
               \<lparr> ta_obj = obj, ta_transactional = tr, ta_resource_instances = d,
                 ta_dynamic_resources_instances = dr, ta_instances_number = n,
                 ta_dynamic_object_instances = di, ta_date_time = now \<rparr>))
        else if (case n of None \<Rightarrow> False | Some v \<Rightarrow> 1 < v)
        then Inr (Some (Rendered C_MULTIPLE_INSTS_TEMPLATE_FILENAME
               \<lparr> ta_obj = obj, ta_transactional = tr, ta_resource_instances = d,
                 ta_dynamic_resources_instances = dr, ta_instances_number = n,
                 ta_dynamic_object_instances = di, ta_date_time = now \<rparr>))
        else Inr None)"
  by (auto simp: generate_object_boilerplate_def truthy_def split: option.splits)

lemma generate_not_none:
  "1 \<le> n \<Longrightarrow> generate_object_boilerplate now obj (Some n) tr ri dr di \<noteq> Inr None"
  by (auto simp: generate_object_boilerplate_def truthy_def Let_def split: sum.splits)

text \<open>
  C2. The command line hands the function a number of instances from 1 to 65534. For a
  multiple object, a number of instances of at least 1 that is not 1 and the
  dynamic-instances flag set, the selection chooses the multiple-instances template: the
  call returns its rendering on the resolved instance counts (and raises only what the
  resolution of the instance counts raises, before the selection).
\<close>

theorem dynamic_instances_multiple_template:
  assumes "obj_multiple obj" and "n \<noteq> 1" and "1 \<le> n" and "dynamic_instances"
  shows "generate_object_boilerplate now obj (Some n) tr ri dr dynamic_instances =
           (case resource_instances_dict obj ri of
              Inl err \<Rightarrow> Inl err
            | Inr d \<Rightarrow>
                Inr (Some (Rendered C_MULTIPLE_INSTS_TEMPLATE_FILENAME
                  \<lparr> ta_obj = obj, ta_transactional = tr, ta_resource_instances = d,
                    ta_dynamic_resources_instances = dr, ta_instances_number = Some n,
                    ta_dynamic_object_instances = dynamic_instances,
                    ta_date_time = now \<rparr>)))"
  using assms
  by (auto simp: generate_object_boilerplate_def truthy_def Let_def split: sum.splits)

text \<open>
  C2, witness: the example object, two instances and 65534 instances, with the flag set.
\<close>

theorem dynamic_instances_multiple_template_witness:
  "obj_multiple example_object \<and> (2::int) \<noteq> 1 \<and> (1::int) \<le> 2
   \<and> generate_object_boilerplate ''2025-01-01 00:00:00'' example_object (Some 2) False None
        False True
      = Inr (Some (Rendered C_MULTIPLE_INSTS_TEMPLATE_FILENAME
          \<lparr> ta_obj = example_object, ta_transactional = False,
            ta_resource_instances = [3 \<mapsto> 2],
            ta_dynamic_resources_instances = False, ta_instances_number = Some 2,
            ta_dynamic_object_instances = True, ta_date_time = ''2025-01-01 00:00:00'' \<rparr>))
   \<and> generate_object_boilerplate ''2025-01-01 00:00:00'' example_object (Some 65534) False
        None False True
      = Inr (Some (Rendered C_MULTIPLE_INSTS_TEMPLATE_FILENAME
          \<lparr> ta_obj = example_object, ta_transactional = False,
            ta_resource_instances = [3 \<mapsto> 2],
            ta_dynamic_resources_instances = False, ta_instances_number = Some 65534,
            ta_dynamic_object_instances = True, ta_date_time = ''2025-01-01 00:00:00'' \<rparr>))"
proof -
  have m: "obj_multiple example_object" by (simp add: example_object_def)
  have d: "resource_instances_dict example_object None = Inr [3 \<mapsto> 2]"
    by (simp add: resource_instances_dict_def example_object_def example_resource_def)
  show ?thesis
    using m
      dynamic_instances_multiple_template [OF m, of 2 True "''2025-01-01 00:00:00''" False
        None False]
      dynamic_instances_multiple_template [OF m, of 65534 True "''2025-01-01 00:00:00''" False
        None False]
    by (simp add: d)
qed


section \<open>The note on a single instance\<close>

lemma no_note_in_list: "filter is_note (map (\<lambda>r. PrintResource (f r) (g r) (h r)) rs) = []"
  by (induction rs) (simp_all add: is_note_def)

lemma process_no_note:
  "arg_instances_number a = Some 1 \<Longrightarrow> filter is_note (fst (process lib e a src)) = []"
  by (auto simp: process_def Let_def is_note_def no_note_in_list
      split: option.splits sum.splits)

lemma process_no_note_pair:
  "arg_instances_number a = Some 1 \<Longrightarrow> process lib e a src = (evs, out) \<Longrightarrow>
     filter is_note evs = []"
  using process_no_note [of a lib e src] by simp

lemma main_no_note:
  "arg_instances_number a = Some 1 \<Longrightarrow> filter is_note (fst (main lib e a)) = []"
  by (auto simp: main_def read_input_def is_note_def
      split: option.splits sum.splits prod.splits dest: process_no_note_pair)

lemma example_main:
  "main example_lib example_env example_args =
     ([ReadStdin,
       PrintStdout (Some (Rendered C_SINGLE_INST_TEMPLATE_FILENAME
         \<lparr> ta_obj = example_object, ta_transactional = False,
           ta_resource_instances = [3 \<mapsto> 2],
           ta_dynamic_resources_instances = False, ta_instances_number = Some 1,
           ta_dynamic_object_instances = False, ta_date_time = ''2025-01-01 00:00:00'' \<rparr>))],
      Finished)"
proof -
  have g: "generate_object_boilerplate ''2025-01-01 00:00:00'' example_object (Some 1) False
      None False False
    = Inr (Some (Rendered C_SINGLE_INST_TEMPLATE_FILENAME
         \<lparr> ta_obj = example_object, ta_transactional = False,
           ta_resource_instances = [3 \<mapsto> 2],
           ta_dynamic_resources_instances = False, ta_instances_number = Some 1,
           ta_dynamic_object_instances = False, ta_date_time = ''2025-01-01 00:00:00'' \<rparr>))"
    by (simp add: generate_object_boilerplate_def resource_instances_dict_def truthy_def
        example_object_def example_resource_def)
  have m: "obj_multiple example_object" by (simp add: example_object_def)
  have f: "fromstring example_lib ''<LWM2M/>'' = Some example_tree"
    by (simp add: example_lib_def)
  have p: "process example_lib example_env example_args ''<LWM2M/>'' =
     ([PrintStdout (Some (Rendered C_SINGLE_INST_TEMPLATE_FILENAME
         \<lparr> ta_obj = example_object, ta_transactional = False,
           ta_resource_instances = [3 \<mapsto> 2],
           ta_dynamic_resources_instances = False, ta_instances_number = Some 1,
           ta_dynamic_object_instances = False, ta_date_time = ''2025-01-01 00:00:00'' \<rparr>))],
      Finished)"
    unfolding process_def f
    by (simp add: example_args_def example_env_def example_from_etree m g)
  show ?thesis
    unfolding main_def
    by (simp add: example_args_def example_env_def read_input_def)
      (simp add: p [unfolded example_args_def example_env_def])
qed

text \<open>
  C1, as stated, fails: a run on a multiple object with one instance requested renders
  the single-instance template and prints no note.
\<close>

theorem single_instance_warning_counterexample:
  "obj_multiple example_object \<and> arg_instances_number example_args = Some 1
   \<and> main example_lib example_env example_args =
     ([ReadStdin,
       PrintStdout (Some (Rendered C_SINGLE_INST_TEMPLATE_FILENAME
         \<lparr> ta_obj = example_object, ta_transactional = False,
           ta_resource_instances = [3 \<mapsto> 2],
           ta_dynamic_resources_instances = False, ta_instances_number = Some 1,
           ta_dynamic_object_instances = False, ta_date_time = ''2025-01-01 00:00:00'' \<rparr>))],
      Finished)
   \<and> filter is_note (fst (main example_lib example_env example_args)) = []"
  by (simp add: example_main is_note_def) (simp add: example_object_def example_args_def)

text \<open>
  C1, amended. For a multiple object and exactly one instance requested, the
  single-instance template is selected (no resource ID being repeated among the
  overrides), and a run with one instance requested prints no note.
\<close>

theorem multiple_object_one_instance:
  assumes "obj_multiple obj"
    and "distinct (map fst (case ri of None \<Rightarrow> [] | Some l \<Rightarrow> l))"
  shows "(\<exists>targs. generate_object_boilerplate now obj (Some 1) tr ri dr di
                   = Inr (Some (Rendered C_SINGLE_INST_TEMPLATE_FILENAME targs)))
       \<and> (arg_instances_number a = Some 1 \<longrightarrow> filter is_note (fst (main lib e a)) = [])"
  using generate_after_dict [OF resource_instances_dict_Inr [OF assms(2)]] main_no_note
  by simp

text \<open>C1, witness: the example object and the example run.\<close>

theorem multiple_object_one_instance_witness:
  "obj_multiple example_object
   \<and> distinct (map fst (case None :: (int \<times> int) list option of None \<Rightarrow> [] | Some l \<Rightarrow> l))
   \<and> (\<exists>targs. generate_object_boilerplate ''2025-01-01 00:00:00'' example_object (Some 1)
                 False None False False
               = Inr (Some (Rendered C_SINGLE_INST_TEMPLATE_FILENAME targs)))
   \<and> arg_instances_number example_args = Some 1
   \<and> filter is_note (fst (main example_lib example_env example_args)) = []"
proof -
  have m: "obj_multiple example_object" by (simp add: example_object_def)
  have d: "distinct (map fst (case None :: (int \<times> int) list option of
      None \<Rightarrow> [] | Some l \<Rightarrow> l))" by simp
  have n: "arg_instances_number example_args = Some 1" by (simp add: example_args_def)
  show ?thesis
    using m d n
      multiple_object_one_instance [OF m d, of "''2025-01-01 00:00:00''" False False False
        example_args example_lib example_env]
    by blast
qed

section \<open>No absent result\<close>

lemma no_none_in_list:
  "filter writes_none (map (\<lambda>r. PrintResource (f r) (g r) (h r)) rs) = []"
  by (induction rs) (simp_all add: writes_none_def)

lemma process_no_none:
  assumes "arg_instances_number a = Some n" and "1 \<le> n"
  shows "filter writes_none (fst (process lib e a src)) = []"
proof -
  have g: "\<And>now obj m tr ri dr di.
      1 \<le> m \<Longrightarrow> generate_object_boilerplate now obj (Some m) tr ri dr di = Inr None \<Longrightarrow> False"
    using generate_not_none by blast
  show ?thesis
    using assms
    by (auto simp: process_def Let_def writes_none_def no_none_in_list
        split: option.splits sum.splits if_splits dest: g [rotated])
qed

lemma process_no_none_pair:
  "arg_instances_number a = Some n \<Longrightarrow> 1 \<le> n \<Longrightarrow> process lib e a src = (evs, out) \<Longrightarrow>
     filter writes_none evs = []"
  using process_no_none [of a n lib e src] by simp

lemma process_no_none_unset:
  "arg_instances_number a = None \<Longrightarrow> process lib e a src = (evs, out) \<Longrightarrow>
     filter writes_none evs = []"
  by (auto simp: process_def no_none_in_list split: option.splits sum.splits if_splits)

lemma main_no_none: "filter writes_none (fst (main lib e a)) = []"
proof (cases "arg_instances_number a")
  case None
  then show ?thesis
    by (auto simp: main_def read_input_def writes_none_def
        split: option.splits sum.splits prod.splits dest: process_no_none_unset)
next
  case (Some n)
  then show ?thesis
    by (auto simp: main_def read_input_def writes_none_def
        split: option.splits sum.splits prod.splits dest: process_no_none_pair)
qed

text \<open>
  C5. A run asked for a number of instances that is neither 1 nor greater than 1 fails:
  it ends with the usage message and status 1, before the object is read, whatever the
  object and the dynamic-instances flag are. And no run prints or writes an absent
  result: the counts that pass this check all select a template.
\<close>

theorem ambiguous_cardinality_fails:
  "(arg_instances_number a = Some n \<and> n \<noteq> 1 \<and> \<not> 1 < n
      \<longrightarrow> main lib e a = ([PrintUsage], SysExit 1)
          \<and> exit_status (snd (main lib e a)) \<noteq> 0)
   \<and> filter writes_none (fst (main lib e a)) = []"
proof (intro conjI impI)
  assume "arg_instances_number a = Some n \<and> n \<noteq> 1 \<and> \<not> 1 < n"
  then show "main lib e a = ([PrintUsage], SysExit 1)"
    by (auto simp: main_def split: option.splits)
  then show "exit_status (snd (main lib e a)) \<noteq> 0" by (simp add: exit_status_def)
next
  show "filter writes_none (fst (main lib e a)) = []" by (rule main_no_none)
qed

text \<open>
  C5, witness: the example run on the multiple object without the dynamic-instances
  flag, asked for 0 instances, and the same run asked for one instance.
\<close>

theorem ambiguous_cardinality_fails_witness:
  "arg_instances_number (example_args \<lparr> arg_instances_number := Some 0 \<rparr>) = Some 0
   \<and> (0::int) \<noteq> 1 \<and> \<not> (1::int) < 0
   \<and> \<not> arg_dynamic_instances (example_args \<lparr> arg_instances_number := Some 0 \<rparr>)
   \<and> main example_lib example_env (example_args \<lparr> arg_instances_number := Some 0 \<rparr>)
       = ([PrintUsage], SysExit 1)
   \<and> exit_status (SysExit 1) = 1
   \<and> filter writes_none (fst (main example_lib example_env example_args)) = []"
  using ambiguous_cardinality_fails [of "example_args \<lparr> arg_instances_number := Some 0 \<rparr>" 0
      example_lib example_env]
    ambiguous_cardinality_fails [of example_args 0 example_lib example_env]
  by (simp add: example_args_def exit_status_def)

end
